theory Spec2Isabelle
  imports Complex_Main
begin

section \<open>Data model of NFLOvertimeSim.py\<close>

text \<open>
  Numbers the simulation computes with (yards, field positions, probabilities) are modelled as
  reals; integer counters (score, downs completed) as \<open>int\<close>. Exceptions are values of
  \<open>error\<close>.
\<close>

datatype error = TypeError | IndexError | AttributeError | ValueError

text \<open>
  The attribute \<open>first_down_yards_needed\<close> holds three kinds of Python value: a number, the
  one-element tuple \<open>(10,)\<close> that the constructor stores (line 41 ends with a comma), and the
  one-element numpy array that \<open>(10,) - numpy.float64\<close> evaluates to.
\<close>

datatype yards_needed = Num real | Tuple1 real | Array1 real

text \<open>
  One play dictionary, a row of a drive's DataFrame. The keys \<open>field_position\<close>, \<open>down\<close> and
  \<open>yards_to_first_down\<close> are always present; a key a play function does not store is \<open>None\<close>.
\<close>

record play =
  p_field_position :: real
  p_down :: int
  p_yards_to_first_down :: yards_needed
  p_play_type :: "string option"
  p_yards_gained :: "real option"
  p_points_from_play :: "int option"
  p_punt_distance :: "real option"
  p_opponent_position :: "real option"
  p_made_kick :: "bool option"

record team =
  name :: string
  has_completed_a_posession :: bool
  min_yards :: real
  exp_yards :: real
  max_yards :: real
  punt_distance :: real
  punt_stdv :: real
  fourth_down_yard_thresh :: real
  fourth_down_position_thresh :: real
  two_point_conversion_rate :: real
  go_for_two :: bool
  need_touchdown :: bool
  need_score :: bool
  downs_completed :: int
  field_position :: real
  score :: int
  first_down_yards_needed :: yards_needed
  had_ball_first :: "bool option"
  has_completed_a_possession :: bool
  drive_data :: "play list list"

text \<open>
  The numpy generator is outside the repository: it is a parameter. The k-th call of
  \<open>np.random.triangular(left, mode, right, 1)[0]\<close> returns \<open>np_triangular left mode right k\<close>,
  the k-th call of \<open>np.random.normal(loc, scale)\<close> returns \<open>np_normal loc scale k\<close>, the k-th
  call of \<open>np.random.uniform()\<close> returns \<open>np_uniform k\<close>; the three counters are the state.
\<close>

record rand =
  np_triangular :: "real \<Rightarrow> real \<Rightarrow> real \<Rightarrow> nat \<Rightarrow> real"
  np_normal :: "real \<Rightarrow> real \<Rightarrow> nat \<Rightarrow> real"
  np_uniform :: "nat \<Rightarrow> real"
  n_triangular :: nat
  n_normal :: nat
  n_uniform :: nat

text \<open>The keyword arguments of \<open>FootballTeam.__init__\<close> and their defaults (lines 10-22).\<close>

record init_args =
  a_name :: string
  a_has_completed_a_posession :: bool
  a_min_yards :: real
  a_exp_yards :: real
  a_max_yards :: real
  a_punt_distance :: real
  a_punt_stdv :: real
  a_fourth_down_yard_thresh :: real
  a_fourth_down_position_thresh :: real
  a_two_point_conversion_rate :: real
  a_go_for_two :: bool
  a_need_touchdown :: bool
  a_need_score :: bool

definition default_args :: "string \<Rightarrow> init_args" where
  "default_args nm =
     \<lparr>a_name = nm, a_has_completed_a_posession = False, a_min_yards = -15, a_exp_yards = 6,
      a_max_yards = 25, a_punt_distance = 45, a_punt_stdv = 4, a_fourth_down_yard_thresh = 2,
      a_fourth_down_position_thresh = 45, a_two_point_conversion_rate = 0.5,
      a_go_for_two = False, a_need_touchdown = False, a_need_score = False\<rparr>"

text \<open>
  \<open>__init__\<close> (lines 24-44) only assigns attributes: it has no \<open>raise\<close>, so the result is
  always \<open>Inr\<close>.
\<close>

definition FootballTeam_init :: "init_args \<Rightarrow> error + team" where
  "FootballTeam_init a =
     Inr \<lparr>name = a_name a,
          has_completed_a_posession = a_has_completed_a_posession a,
          min_yards = a_min_yards a, exp_yards = a_exp_yards a, max_yards = a_max_yards a,
          punt_distance = a_punt_distance a, punt_stdv = a_punt_stdv a,
          fourth_down_yard_thresh = a_fourth_down_yard_thresh a,
          fourth_down_position_thresh = a_fourth_down_position_thresh a,
          two_point_conversion_rate = a_two_point_conversion_rate a,
          go_for_two = a_go_for_two a,
          need_touchdown = a_need_touchdown a, need_score = a_need_score a,
          downs_completed = 0, field_position = 25, score = 0,
          first_down_yards_needed = Tuple1 10,
          had_ball_first = None, has_completed_a_possession = False, drive_data = []\<rparr>"

text \<open>The team a constructor call returns (the constructor never raises).\<close>

definition new_team :: "init_args \<Rightarrow> team" where
  "new_team a = (case FootballTeam_init a of Inr t \<Rightarrow> t)"

section \<open>FootballTeam: setters and the set of downs\<close>

definition update_score :: "team \<Rightarrow> int \<Rightarrow> team" where
  "update_score t score_value = t\<lparr>score := score t + score_value\<rparr>"

definition set_field_position :: "team \<Rightarrow> real \<Rightarrow> team" where
  "set_field_position t new_field_position = t\<lparr>field_position := new_field_position\<rparr>"

definition update_field_position :: "team \<Rightarrow> real \<Rightarrow> team" where
  "update_field_position t play_result = t\<lparr>field_position := field_position t + play_result\<rparr>"

definition reset_series :: "team \<Rightarrow> team" where
  "reset_series t = t\<lparr>downs_completed := 0, first_down_yards_needed := Num 10\<rparr>"

text \<open>
  \<open>v - play_result\<close> for the numpy float that \<open>run_play\<close> passes: a number stays a number; a
  tuple has no subtraction, so numpy's reflected operator converts it to an array.
\<close>

fun yn_sub :: "yards_needed \<Rightarrow> real \<Rightarrow> yards_needed" where
  "yn_sub (Num a) x = Num (a - x)"
| "yn_sub (Tuple1 a) x = Array1 (a - x)"
| "yn_sub (Array1 a) x = Array1 (a - x)"

text \<open>
  Truth value of \<open>v <= c\<close> and of \<open>v < c\<close> for a Python number \<open>c\<close>: comparing a tuple with a
  number raises TypeError; a one-element array compares elementwise and has its element's
  truth value.
\<close>

fun yn_le :: "yards_needed \<Rightarrow> real \<Rightarrow> error + bool" where
  "yn_le (Num a) c = Inr (a \<le> c)"
| "yn_le (Tuple1 a) c = Inl TypeError"
| "yn_le (Array1 a) c = Inr (a \<le> c)"

fun yn_less :: "yards_needed \<Rightarrow> real \<Rightarrow> error + bool" where
  "yn_less (Num a) c = Inr (a < c)"
| "yn_less (Tuple1 a) c = Inl TypeError"
| "yn_less (Array1 a) c = Inr (a < c)"

definition update_yards_to_firstdown :: "team \<Rightarrow> real \<Rightarrow> error + team" where
  "update_yards_to_firstdown t play_result =
     (let t1 = t\<lparr>first_down_yards_needed := yn_sub (first_down_yards_needed t) play_result\<rparr>
      in case yn_le (first_down_yards_needed t1) 0 of
           Inl e \<Rightarrow> Inl e
         | Inr b \<Rightarrow> Inr (if b then reset_series t1 else t1))"

definition set_down :: "team \<Rightarrow> int \<Rightarrow> team" where
  "set_down t new_down = t\<lparr>downs_completed := new_down\<rparr>"

text \<open>\<open>turnover_possession\<close> calls \<open>self.set_offense\<close>, which the class does not define.\<close>

definition turnover_possession :: "team \<Rightarrow> error + team" where
  "turnover_possession t = Inl AttributeError"

definition set_need_touchdown :: "team \<Rightarrow> bool \<Rightarrow> team" where
  "set_need_touchdown t v = t\<lparr>need_touchdown := v\<rparr>"

definition set_need_score :: "team \<Rightarrow> bool \<Rightarrow> team" where
  "set_need_score t v = t\<lparr>need_score := v\<rparr>"

definition set_has_completed_possession :: "team \<Rightarrow> bool \<Rightarrow> team" where
  "set_has_completed_possession t v = t\<lparr>has_completed_a_possession := v\<rparr>"

definition set_had_ball_first :: "team \<Rightarrow> bool \<Rightarrow> team" where
  "set_had_ball_first t v = t\<lparr>had_ball_first := Some v\<rparr>"

definition update_drive_data :: "team \<Rightarrow> play list \<Rightarrow> team" where
  "update_drive_data t df = t\<lparr>drive_data := drive_data t @ [df]\<rparr>"

definition get_drive_data :: "team \<Rightarrow> play list list" where
  "get_drive_data t = drive_data t"

definition check_touchdown :: "team \<Rightarrow> bool" where
  "check_touchdown t = (field_position t \<ge> 100)"

definition get_play_conditions_dict :: "team \<Rightarrow> string option \<Rightarrow> play" where
  "get_play_conditions_dict t play_type =
     \<lparr>p_field_position = field_position t, p_down = downs_completed t,
      p_yards_to_first_down = first_down_yards_needed t, p_play_type = play_type,
      p_yards_gained = None, p_points_from_play = None, p_punt_distance = None,
      p_opponent_position = None, p_made_kick = None\<rparr>"

section \<open>FootballTeam: plays\<close>

text \<open>\<open>simulate_play_yards\<close> with its default \<open>n_plays = 1\<close>: one draw, the generator advanced.\<close>

definition simulate_play_yards :: "team \<Rightarrow> rand \<Rightarrow> real \<times> rand" where
  "simulate_play_yards t r =
     (np_triangular r (min_yards t) (exp_yards t) (max_yards t) (n_triangular r),
      r\<lparr>n_triangular := Suc (n_triangular r)\<rparr>)"

definition touch_down_conversion :: "team \<Rightarrow> rand \<Rightarrow> int \<times> rand" where
  "touch_down_conversion t r =
     (if \<not> go_for_two t then (1, r)
      else if np_uniform r (n_uniform r) \<le> two_point_conversion_rate t
           then (2, r\<lparr>n_uniform := Suc (n_uniform r)\<rparr>)
           else (0, r\<lparr>n_uniform := Suc (n_uniform r)\<rparr>))"

definition run_play :: "team \<Rightarrow> rand \<Rightarrow> error + (play \<times> team \<times> rand)" where
  "run_play t r =
     (let (play_result, r1) = simulate_play_yards t r;
          result_dict = get_play_conditions_dict t (Some ''run_play'');
          t1 = update_field_position t play_result;
          t2 = t1\<lparr>downs_completed := downs_completed t1 + 1\<rparr>
      in if check_touchdown t2
         then (let (conv, r2) = touch_down_conversion t2 r1;
                   points_from_play = 6 + conv
               in Inr (result_dict\<lparr>p_yards_gained := Some play_result,
                                    p_points_from_play := Some points_from_play\<rparr>,
                       update_score t2 points_from_play, r2))
         else (case update_yards_to_firstdown t2 play_result of
                 Inl e \<Rightarrow> Inl e
               | Inr t3 \<Rightarrow> Inr (result_dict\<lparr>p_yards_gained := Some play_result,
                                              p_points_from_play := Some 0\<rparr>, t3, r1)))"

definition punt :: "team \<Rightarrow> rand \<Rightarrow> play \<times> team \<times> rand" where
  "punt t r =
     (let punt_dist = np_normal r (punt_distance t) (punt_stdv t) (n_normal r);
          r1 = r\<lparr>n_normal := Suc (n_normal r)\<rparr>;
          punt_landing_spot = punt_dist + field_position t;
          opponent_position = (if punt_landing_spot \<le> 100 then 100 - punt_landing_spot else 25);
          result_dict = get_play_conditions_dict t (Some ''punt'')
      in (result_dict\<lparr>p_punt_distance := Some punt_dist,
                      p_opponent_position := Some opponent_position,
                      p_points_from_play := Some 0\<rparr>,
          t\<lparr>downs_completed := downs_completed t + 1\<rparr>, r1))"

definition get_field_goal_probability :: "team \<Rightarrow> real" where
  "get_field_goal_probability t =
     (let yards_to_endzone = 100 - field_position t;
          additional_kick_yards = 17;
          kick_distance = yards_to_endzone + additional_kick_yards
      in if kick_distance \<le> 40 then 0.90
         else if kick_distance \<le> 50 then 0.70
         else if kick_distance \<le> 60 then 0.60
         else 0)"

definition kick_field_goal :: "team \<Rightarrow> rand \<Rightarrow> play \<times> team \<times> rand" where
  "kick_field_goal t r =
     (let kick_attempt = np_uniform r (n_uniform r);
          r1 = r\<lparr>n_uniform := Suc (n_uniform r)\<rparr>;
          made = (kick_attempt \<le> get_field_goal_probability t);
          points_from_play = (if made then 3 else 0);
          t1 = (if made then update_score t points_from_play else t);
          result_dict = get_play_conditions_dict t1 (Some ''field_goal'')
      in (result_dict\<lparr>p_yards_gained := Some (-5), p_made_kick := Some made,
                      p_points_from_play := Some points_from_play\<rparr>,
          t1\<lparr>downs_completed := downs_completed t1 + 1\<rparr>, r1))"

text \<open>
  \<open>a and b\<close> evaluates \<open>b\<close> only when \<open>a\<close> is true; the result is used for its truth value.
\<close>

definition meets_fouth_down_criteria :: "team \<Rightarrow> error + bool" where
  "meets_fouth_down_criteria t =
     (if field_position t > fourth_down_position_thresh t
      then yn_less (first_down_yards_needed t) (fourth_down_yard_thresh t)
      else Inr False)"

definition fourth_down_decision :: "team \<Rightarrow> rand \<Rightarrow> error + (play \<times> team \<times> rand)" where
  "fourth_down_decision t r =
     (if need_touchdown t then run_play t r
      else case meets_fouth_down_criteria t of
             Inl e \<Rightarrow> Inl e
           | Inr m \<Rightarrow>
               if m then run_play t r
               else if get_field_goal_probability t > 0.55 then Inr (kick_field_goal t r)
               else if need_score t then run_play t r
               else Inr (punt t r))"

section \<open>FootballTeam: the drive\<close>

text \<open>The body of the \<open>while\<close> loop of \<open>simulate_drive\<close> (lines 246-250, \<open>debug\<close> off).\<close>

definition drive_play :: "team \<Rightarrow> rand \<Rightarrow> error + (play \<times> team \<times> rand)" where
  "drive_play t r = (if downs_completed t \<le> 2 then run_play t r else fourth_down_decision t r)"

text \<open>The number under \<open>first_down_yards_needed\<close>, whatever Python value carries it.\<close>

fun yn_val :: "yards_needed \<Rightarrow> real" where
  "yn_val (Num a) = a"
| "yn_val (Tuple1 a) = a"
| "yn_val (Array1 a) = a"

text \<open>
  Termination of the loop: \<open>drive_potential\<close> (field position plus yards still needed) never
  falls, and grows by at least 10 whenever the set of downs renews while the ball is short of
  the goal line, so \<open>sets_left\<close> bounds the renewals still possible.
\<close>

definition drive_potential :: "team \<Rightarrow> real" where
  "drive_potential t = field_position t + yn_val (first_down_yards_needed t)"

definition sets_left :: "real \<Rightarrow> nat" where
  "sets_left q = nat \<lceil>(110 - q) / 10\<rceil>"

text \<open>
  The \<open>while\<close> loop of \<open>simulate_drive\<close> (lines 244-255): \<open>plays\<close> is the list the results are
  appended to. An exception of the body leaves the loop.
\<close>

function drive_loop :: "team \<Rightarrow> rand \<Rightarrow> play list \<Rightarrow> error + (team \<times> rand \<times> play list)" where
  "drive_loop t r plays =
     (if downs_completed t \<le> 3 \<and> field_position t < 100
      then (case drive_play t r of
              Inl e \<Rightarrow> Inl e
            | Inr (result, t', r') \<Rightarrow> drive_loop t' r' (plays @ [result]))
      else Inr (t, r, plays))"
  by pat_completeness auto
termination
proof (relation "measures [\<lambda>(t, r, plays). sets_left (drive_potential t),
                           \<lambda>(t, r, plays). nat (4 - downs_completed t)]", goal_cases)
  case 1
  show ?case by simp
next
  case (2 t r plays x2 result x2a t' r')
  then have step: "drive_play t r = Inr (result, t', r')"
    and guard: "downs_completed t \<le> 3" "field_position t < 100" by auto
  have mono: "sets_left q' \<le> sets_left q" if "q \<le> q'" for q q'
    using that unfolding sets_left_def by (intro nat_mono ceiling_mono) simp
  have renew: "sets_left q' < sets_left q" if "q + 10 \<le> q'" "q' < 110" for q q'
  proof -
    have "(110 - q') / 10 + 1 \<le> (110 - q) / 10" using that by simp
    then have "\<lceil>(110 - q') / 10\<rceil> + 1 \<le> \<lceil>(110 - q) / 10\<rceil>"
      by (metis ceiling_add_one ceiling_mono)
    moreover have "0 < \<lceil>(110 - q') / 10\<rceil>" using that by simp
    ultimately show ?thesis unfolding sets_left_def by linarith
  qed
  have ysub: "yn_val (yn_sub v x) = yn_val v - x" for v x by (cases v) simp_all
  have yle: "yn_le (yn_sub v x) c = Inr (yn_val v - x \<le> c)" for v x c by (cases v) simp_all
  let ?progress =
    "\<lambda>s. (drive_potential t + 10 \<le> drive_potential s \<and> drive_potential s < 110) \<or>
         (drive_potential t \<le> drive_potential s \<and> downs_completed s = downs_completed t + 1)"
  have run: "?progress s" if "run_play t r = Inr (result, s, r1)" for s r1
    using that guard(2)
    by (auto simp: run_play_def simulate_play_yards_def Let_def check_touchdown_def
        update_field_position_def update_score_def update_yards_to_firstdown_def
        reset_series_def drive_potential_def ysub yle split: if_splits prod.splits)
  have kick: "?progress s" if "kick_field_goal t r = (result, s, r1)" for s r1
    using that
    by (auto simp: kick_field_goal_def Let_def update_score_def drive_potential_def
        split: if_splits)
  have punt: "?progress s" if "punt t r = (result, s, r1)" for s r1
    using that by (auto simp: punt_def Let_def drive_potential_def)
  have "?progress t'"
    using step run kick punt
    by (auto simp: drive_play_def fourth_down_decision_def split: if_splits sum.splits)
  then show ?case
    using mono[of "drive_potential t" "drive_potential t'"]
      renew[of "drive_potential t" "drive_potential t'"] guard(1)
    by auto
qed

declare drive_loop.simps [simp del]

text \<open>
  \<open>simulate_drive\<close> (lines 238-261, \<open>debug\<close> off): the DataFrame of the drive is the list of
  its play dictionaries.
\<close>

definition simulate_drive :: "team \<Rightarrow> real \<Rightarrow> rand \<Rightarrow> error + (team \<times> rand)" where
  "simulate_drive t starting_position r =
     (let t1 = set_field_position t starting_position;
          t2 = reset_series t1
      in case drive_loop t2 r [] of
           Inl e \<Rightarrow> Inl e
         | Inr (t3, r', plays) \<Rightarrow>
             Inr (update_drive_data (set_has_completed_possession t3 True) plays, r'))"

text \<open>
  \<open>self.drive_data[-1].iloc[-1, :]\<close>: the last row of the last DataFrame. An empty list and
  an empty DataFrame both raise IndexError.
\<close>

definition get_last_play :: "team \<Rightarrow> error + play" where
  "get_last_play t =
     (if drive_data t = [] then Inl IndexError
      else if last (drive_data t) = [] then Inl IndexError
      else Inr (last (last (drive_data t))))"

text \<open>
  \<open>determine_opponent_position\<close> (lines 269-282). Reading a key the row does not hold is
  modelled as AttributeError; the rows the three play functions build hold every key read
  on their branch.
\<close>

definition determine_opponent_position :: "team \<Rightarrow> error + real" where
  "determine_opponent_position t =
     (case get_last_play t of
        Inl e \<Rightarrow> Inl e
      | Inr last_play \<Rightarrow>
          (case p_play_type last_play of
             None \<Rightarrow> Inl AttributeError
           | Some play_type \<Rightarrow>
               (case p_points_from_play last_play of
                  None \<Rightarrow> Inl AttributeError
                | Some pts \<Rightarrow>
                    if pts > 0 then Inr 25
                    else if play_type = ''punt''
                    then (case p_opponent_position last_play of
                            None \<Rightarrow> Inl AttributeError
                          | Some op \<Rightarrow> Inr op)
                    else (case p_yards_gained last_play of
                            None \<Rightarrow> Inl AttributeError
                          | Some yg \<Rightarrow> Inr (100 - (p_field_position last_play + yg))))))"

section \<open>FootballGame\<close>

text \<open>
  \<open>winner\<close> and \<open>loser\<close> are references to one of the game's two team objects, which are
  taken to be two different objects.
\<close>

datatype team_ref = BallFirst | BallSecond

datatype gval = GStr string | GInt int | GFlag "bool option" | GReal real

record game =
  ball_first_team :: team
  ball_second_team :: team
  game_data :: "string \<rightharpoonup> gval"
  winner :: "team_ref option"
  loser :: "team_ref option"

definition FootballGame_init :: "team \<Rightarrow> team \<Rightarrow> game" where
  "FootballGame_init first_team second_team =
     \<lparr>ball_first_team = first_team, ball_second_team = second_team, game_data = Map.empty,
      winner = None, loser = None\<rparr>"

fun team_of :: "game \<Rightarrow> team_ref \<Rightarrow> team" where
  "team_of g BallFirst = ball_first_team g"
| "team_of g BallSecond = ball_second_team g"

definition check_for_winner :: "game \<Rightarrow> bool" where
  "check_for_winner g =
     ((has_completed_a_possession (ball_first_team g) \<and>
       has_completed_a_possession (ball_second_team g)) \<and>
      score (ball_first_team g) \<noteq> score (ball_second_team g))"

text \<open>
  Line 298 tests \<open>self.check_for_winner\<close>, the bound method, without calling it. A method
  object defines neither \<open>__bool__\<close> nor \<open>__len__\<close>, so its truth value is True whatever the
  method would return.
\<close>

definition method_truth :: "(game \<Rightarrow> bool) \<Rightarrow> bool" where
  "method_truth m = True"

text \<open>\<open>set_winning_team\<close> (lines 296-311): the lines printed, and the game.\<close>

definition set_winning_team :: "game \<Rightarrow> string list \<times> game" where
  "set_winning_team g =
     (if \<not> method_truth check_for_winner then ([''No winner yet!''], g)
      else if score (ball_first_team g) > score (ball_second_team g)
      then ([], g\<lparr>winner := Some BallFirst, loser := Some BallSecond\<rparr>)
      else if score (ball_first_team g) < score (ball_second_team g)
      then ([], g\<lparr>winner := Some BallSecond, loser := Some BallFirst\<rparr>)
      else ([''Something wierd happened!''], g\<lparr>winner := None\<rparr>))"

text \<open>
  \<open>pd.concat(drives).sum().yards_gained\<close>: the sum of the \<open>yards_gained\<close> entries of all rows
  that have one; the column does not exist when no row has the key.
\<close>

definition total_yards :: "play list list \<Rightarrow> error + real" where
  "total_yards drives =
     (let gains = concat (map (\<lambda>p. case p_yards_gained p of None \<Rightarrow> [] | Some y \<Rightarrow> [y])
                            (concat drives))
      in if gains = [] then Inl AttributeError else Inr (sum_list gains))"

text \<open>
  \<open>update_game_data\<close> (lines 319-334). \<open>pd.concat\<close> of an empty list raises ValueError. The
  dictionary assignments are applied in the order of the source.
\<close>

definition update_game_data :: "game \<Rightarrow> error + game" where
  "update_game_data g =
     (case winner g of
        None \<Rightarrow> Inr g
      | Some w \<Rightarrow>
          (case loser g of
             None \<Rightarrow> Inl AttributeError
           | Some l \<Rightarrow>
               if get_drive_data (team_of g w) = [] \<or> get_drive_data (team_of g l) = []
               then Inl ValueError
               else (case total_yards (get_drive_data (team_of g w)) of
                       Inl e \<Rightarrow> Inl e
                     | Inr wy \<Rightarrow>
                         (case total_yards (get_drive_data (team_of g l)) of
                            Inl e \<Rightarrow> Inl e
                          | Inr ly \<Rightarrow>
                              Inr (g\<lparr>game_data := (game_data g)
                                (''winner'' \<mapsto> GStr (name (team_of g w)),
                                 ''loser'' \<mapsto> GStr (name (team_of g l)),
                                 ''winner_score'' \<mapsto> GInt (score (team_of g w)),
                                 ''winner_score'' \<mapsto> GInt (score (team_of g l)),
                                 ''winner_had_ball_first'' \<mapsto> GFlag (had_ball_first (team_of g w)),
                                 ''winning_team_number_of_drives'' \<mapsto>
                                    GInt (int (length (get_drive_data (team_of g w)))),
                                 ''losing_team_number_of_drives'' \<mapsto>
                                    GInt (int (length (get_drive_data (team_of g l)))),
                                 ''total_yards_winning_team'' \<mapsto> GReal wy,
                                 ''total_yards_losing_team'' \<mapsto> GReal ly)\<rparr>)))))"

definition enable_sudden_death :: "game \<Rightarrow> game" where
  "enable_sudden_death g =
     g\<lparr>ball_first_team := set_need_score (set_need_touchdown (ball_first_team g) False) False,
       ball_second_team := set_need_score (set_need_touchdown (ball_second_team g) False) False\<rparr>"

text \<open>
  The \<open>while not self.check_for_winner()\<close> loop of \<open>simulate_game\<close> (lines 385-393). Nothing
  bounds it, so it is a partial function: \<open>None\<close> is a run that never leaves the loop,
  \<open>Some (Inl e)\<close> one that an exception ends.
\<close>

partial_function (option) sudden_death ::
  "game \<Rightarrow> rand \<Rightarrow> real \<Rightarrow> (error + (game \<times> rand)) option" where
  "sudden_death g r starting_position =
     (if check_for_winner g then Some (Inr (g, r))
      else (case simulate_drive (ball_first_team g) starting_position r of
              Inl e \<Rightarrow> Some (Inl e)
            | Inr (t1, r1) \<Rightarrow>
                if check_for_winner (g\<lparr>ball_first_team := t1\<rparr>)
                then Some (Inr (g\<lparr>ball_first_team := t1\<rparr>, r1))
                else (case determine_opponent_position t1 of
                        Inl e \<Rightarrow> Some (Inl e)
                      | Inr sp1 \<Rightarrow>
                          (case simulate_drive (ball_second_team g) sp1 r1 of
                             Inl e \<Rightarrow> Some (Inl e)
                           | Inr (t2, r2) \<Rightarrow>
                               (case determine_opponent_position t2 of
                                  Inl e \<Rightarrow> Some (Inl e)
                                | Inr sp2 \<Rightarrow>
                                    sudden_death
                                      (g\<lparr>ball_first_team := t1, ball_second_team := t2\<rparr>)
                                      r2 sp2)))))"

text \<open>
  \<open>simulate_game\<close> (lines 359-399) in three parts. \<open>regulation\<close> is lines 361-383: the two
  opening possessions, the obligations of the second team, and \<open>enable_sudden_death\<close>; it
  returns the game, the generator and the starting position the loop begins with. Then comes
  the loop, then \<open>set_winning_team\<close> and \<open>update_game_data\<close>.
\<close>

definition regulation :: "game \<Rightarrow> rand \<Rightarrow> error + (game \<times> rand \<times> real)" where
  "regulation g r =
     (let g1 = g\<lparr>ball_first_team := set_had_ball_first (ball_first_team g) True,
                 ball_second_team := set_had_ball_first (ball_second_team g) False\<rparr>
      in case simulate_drive (ball_first_team g1) 25 r of
           Inl e \<Rightarrow> Inl e
         | Inr (t1, r1) \<Rightarrow>
             (case determine_opponent_position t1 of
                Inl e \<Rightarrow> Inl e
              | Inr sp1 \<Rightarrow>
                  (let s0 = ball_second_team g1;
                       s1 = (if score t1 = 7 then set_need_touchdown s0 True else s0);
                       s2 = (if score t1 = 3 then set_need_score s1 True else s1)
                   in case simulate_drive s2 sp1 r1 of
                        Inl e \<Rightarrow> Inl e
                      | Inr (t2, r2) \<Rightarrow>
                          (case determine_opponent_position t2 of
                             Inl e \<Rightarrow> Inl e
                           | Inr sp2 \<Rightarrow>
                               Inr (enable_sudden_death
                                      (g1\<lparr>ball_first_team := t1, ball_second_team := t2\<rparr>),
                                    r2, sp2)))))"

definition simulate_game :: "game \<Rightarrow> rand \<Rightarrow> (error + (game \<times> rand)) option" where
  "simulate_game g r =
     (case regulation g r of
        Inl e \<Rightarrow> Some (Inl e)
      | Inr (g1, r1, sp) \<Rightarrow>
          (case sudden_death g1 r1 sp of
             None \<Rightarrow> None
           | Some (Inl e) \<Rightarrow> Some (Inl e)
           | Some (Inr (g2, r2)) \<Rightarrow>
               (case update_game_data (snd (set_winning_team g2)) of
                  Inl e \<Rightarrow> Some (Inl e)
                | Inr g3 \<Rightarrow> Some (Inr (g3, r2)))))"

section \<open>The specification's notions\<close>

text \<open>
  The configurations section 7 of the specification calls invalid: minimum above most-likely,
  most-likely above maximum, a probability outside [0,1], a negative standard deviation.
\<close>

definition invalid_config :: "init_args \<Rightarrow> bool" where
  "invalid_config a =
     (a_min_yards a > a_exp_yards a \<or> a_exp_yards a > a_max_yards a \<or>
      a_two_point_conversion_rate a < 0 \<or> a_two_point_conversion_rate a > 1 \<or>
      a_punt_stdv a < 0)"

text \<open>
  The fourth-down policy in the words of section 4.3 of the specification: the first rule
  that matches decides.
\<close>

datatype decision = Convert | FieldGoalAttempt | PuntAway

definition fourth_down_policy :: "team \<Rightarrow> real \<Rightarrow> decision" where
  "fourth_down_policy t yards_needed_now =
     (if need_touchdown t \<or>
         (field_position t > fourth_down_position_thresh t \<and>
          yards_needed_now < fourth_down_yard_thresh t)
      then Convert
      else if get_field_goal_probability t > 0.55 then FieldGoalAttempt
      else if need_score t then Convert
      else PuntAway)"

fun carry_out :: "decision \<Rightarrow> team \<Rightarrow> rand \<Rightarrow> error + (play \<times> team \<times> rand)" where
  "carry_out Convert t r = run_play t r"
| "carry_out FieldGoalAttempt t r = Inr (kick_field_goal t r)"
| "carry_out PuntAway t r = Inr (punt t r)"

text \<open>The test of the \<open>while\<close> loop of \<open>simulate_drive\<close>: another play follows.\<close>

definition drive_continues :: "team \<Rightarrow> bool" where
  "drive_continues t = (downs_completed t \<le> 3 \<and> field_position t < 100)"

text \<open>Where a recorded play left the ball: its field position plus the yards it gained.\<close>

definition position_after :: "play \<Rightarrow> real" where
  "position_after p =
     p_field_position p + (case p_yards_gained p of None \<Rightarrow> 0 | Some x \<Rightarrow> x)"

text \<open>
  A recorded play gains enough for a new set of downs when it is a run whose gain brings the
  yards needed to 0 or below; it converts when, besides, it stays short of the goal line.
\<close>

definition gains_enough :: "play \<Rightarrow> bool" where
  "gains_enough p =
     (p_play_type p = Some ''run_play'' \<and>
      (case p_yards_gained p of
         None \<Rightarrow> False
       | Some x \<Rightarrow> yn_val (p_yards_to_first_down p) - x \<le> 0))"

definition converts :: "play \<Rightarrow> bool" where
  "converts p = (gains_enough p \<and> position_after p < 100)"

text \<open>
  The field positions at which the sets of downs of a drive start (the plays recorded with
  no down completed), and what it means for them to lie at least 10 yards apart, from \<open>lo\<close>
  on and short of the goal line.
\<close>

definition set_starts :: "play list \<Rightarrow> real list" where
  "set_starts plays = map p_field_position (filter (\<lambda>p. p_down p = 0) plays)"

fun spaced :: "real \<Rightarrow> real list \<Rightarrow> bool" where
  "spaced lo [] = True"
| "spaced lo (z # zs) = (lo \<le> z \<and> z < 100 \<and> spaced (z + 10) zs)"

text \<open>
  What the plays a drive records from state \<open>t\<close> on (with \<open>y\<close> yards needed) satisfy: every
  play starts with 0 to 3 downs completed; a set that starts now starts at the current field
  position; later sets start at least \<open>y\<close> yards further and 10 yards apart; four plays at
  most go to each set.
\<close>

definition rows_ok :: "team \<Rightarrow> real \<Rightarrow> play list \<Rightarrow> bool" where
  "rows_ok t y new =
     (list_all (\<lambda>p. 0 \<le> p_down p \<and> p_down p \<le> 3) new \<and>
      (let zs = set_starts new;
           starts_now = (downs_completed t = 0 \<and> field_position t < 100);
           later = (if starts_now then tl zs else zs)
       in (if starts_now then zs \<noteq> [] \<and> hd zs = field_position t else True) \<and>
          spaced (field_position t + y) later \<and>
          length new + nat (downs_completed t) \<le> 4 + 4 * length later))"




section \<open>Concrete teams, generators and games\<close>

text \<open>A generator whose every draw of a kind is the same number.\<close>

definition rand_const :: "real \<Rightarrow> real \<Rightarrow> real \<Rightarrow> rand" where
  "rand_const yards punt_dist u =
     \<lparr>np_triangular = (\<lambda>left mode right k. yards), np_normal = (\<lambda>loc scale k. punt_dist),
      np_uniform = (\<lambda>k. u), n_triangular = 0, n_normal = 0, n_uniform = 0\<rparr>"

text \<open>A generator whose first eight plays gain 10 yards and all later ones none.\<close>

definition demo_rand :: rand where
  "demo_rand =
     \<lparr>np_triangular = (\<lambda>left mode right k. if k < 8 then 10 else 0),
      np_normal = (\<lambda>loc scale k. 45), np_uniform = (\<lambda>k. 0),
      n_triangular = 0, n_normal = 0, n_uniform = 0\<rparr>"

definition bad_args :: init_args where
  "bad_args = (default_args ''t'')\<lparr>a_min_yards := 10, a_exp_yards := 5, a_max_yards := 0,
     a_two_point_conversion_rate := 3 / 2, a_punt_stdv := -1\<rparr>"

text \<open>A default team on fourth and ten at its own 25.\<close>

definition fourth_down_team :: team where
  "fourth_down_team =
     (new_team (default_args ''t''))\<lparr>downs_completed := 3, first_down_yards_needed := Num 10\<rparr>"

text \<open>A default team on fourth and one at midfield, past its position threshold of 45.\<close>

definition short_yardage_team :: team where
  "short_yardage_team =
     (new_team (default_args ''t''))\<lparr>downs_completed := 3,
        field_position := 50, first_down_yards_needed := Num 1\<rparr>"

text \<open>A team that needs a touchdown, on fourth and five at the opponent's 5.\<close>

definition goal_line_team :: team where
  "goal_line_team =
     (new_team (default_args ''t''))\<lparr>need_touchdown := True, downs_completed := 3,
        field_position := 95, first_down_yards_needed := Num 5\<rparr>"

text \<open>A default team on fourth and five at the opponent's 30 (field position 70).\<close>

definition field_goal_team :: team where
  "field_goal_team =
     (new_team (default_args ''t''))\<lparr>downs_completed := 3, field_position := 70,
        first_down_yards_needed := Num 5\<rparr>"



text \<open>The team after a drive whose only recorded play is the given one.\<close>

definition after_play :: "play \<times> team \<times> rand \<Rightarrow> team" where
  "after_play x = update_drive_data (fst (snd x)) [fst x]"

text \<open>A game nobody has played yet, its first team credited with seven points.\<close>

definition unplayed_game :: game where
  "unplayed_game =
     FootballGame_init (update_score (new_team (default_args ''a'')) 7)
       (new_team (default_args ''b''))"

text \<open>The two default teams of the module (lines 401-405), as \<open>simulate_new_game\<close> builds them.\<close>

definition demo_game :: game where
  "demo_game = FootballGame_init (new_team (default_args ''receiving_team''))
                                 (new_team (default_args ''kicking_team''))"

section \<open>Properties of one play\<close>

lemma yn_le_sub: "yn_le (yn_sub v x) c = Inr (yn_val v - x \<le> c)"
  by (cases v) simp_all

lemma update_yards_to_firstdown_eq:
  "update_yards_to_firstdown t x =
     Inr (if yn_val (first_down_yards_needed t) - x \<le> 0
          then t\<lparr>downs_completed := 0, first_down_yards_needed := Num 10\<rparr>
          else t\<lparr>first_down_yards_needed := yn_sub (first_down_yards_needed t) x\<rparr>)"
  by (simp add: update_yards_to_firstdown_def reset_series_def yn_le_sub)

text \<open>\<open>run_play\<close> by its three outcomes: touchdown, renewed set of downs, down used up.\<close>

lemma run_play_eq:
  "run_play t r =
     (let x = np_triangular r (min_yards t) (exp_yards t) (max_yards t) (n_triangular r);
          r1 = r\<lparr>n_triangular := Suc (n_triangular r)\<rparr>;
          d = get_play_conditions_dict t (Some ''run_play'')
      in if field_position t + x \<ge> 100
         then Inr (d\<lparr>p_yards_gained := Some x,
                     p_points_from_play := Some (6 + fst (touch_down_conversion t r1))\<rparr>,
                   t\<lparr>field_position := field_position t + x,
                     downs_completed := downs_completed t + 1,
                     score := score t + (6 + fst (touch_down_conversion t r1))\<rparr>,
                   snd (touch_down_conversion t r1))
         else if yn_val (first_down_yards_needed t) - x \<le> 0
         then Inr (d\<lparr>p_yards_gained := Some x, p_points_from_play := Some 0\<rparr>,
                   t\<lparr>field_position := field_position t + x,
                     downs_completed := 0, first_down_yards_needed := Num 10\<rparr>, r1)
         else Inr (d\<lparr>p_yards_gained := Some x, p_points_from_play := Some 0\<rparr>,
                   t\<lparr>field_position := field_position t + x,
                     downs_completed := downs_completed t + 1,
                     first_down_yards_needed := yn_sub (first_down_yards_needed t) x\<rparr>, r1))"
  by (simp add: run_play_def simulate_play_yards_def Let_def check_touchdown_def
      update_field_position_def update_score_def update_yards_to_firstdown_eq
      touch_down_conversion_def get_play_conditions_dict_def split: prod.splits)

lemma run_play_total: "\<exists>p t' r'. run_play t r = Inr (p, t', r')"
  by (simp add: run_play_eq Let_def)

lemma run_play_step:
  assumes "run_play t r = Inr (p, t', r')" "first_down_yards_needed t = Num y"
    "field_position t < 100"
  shows "p_down p = downs_completed t \<and> p_field_position p = field_position t \<and>
         (\<exists>y'. first_down_yards_needed t' = Num y' \<and>
           ((downs_completed t' = 0 \<and> field_position t' < 100 \<and> y' = 10 \<and>
             field_position t + y \<le> field_position t') \<or>
            (downs_completed t' = downs_completed t + 1 \<and>
             field_position t + y \<le> field_position t' + y')))"
  using assms
  by (auto simp: run_play_eq Let_def get_play_conditions_dict_def split: if_splits)

lemma kick_punt_step:
  assumes "kick_field_goal t r = (p, t', r') \<or> punt t r = (p, t', r')"
  shows "p_down p = downs_completed t \<and> p_field_position p = field_position t \<and>
         first_down_yards_needed t' = first_down_yards_needed t \<and>
         field_position t' = field_position t \<and>
         downs_completed t' = downs_completed t + 1"
  using assms
  by (auto simp: kick_field_goal_def punt_def Let_def get_play_conditions_dict_def
      update_score_def split: if_splits)

text \<open>With a number under \<open>first_down_yards_needed\<close> the fourth-down decision raises nothing.\<close>

lemma fourth_down_decision_Num:
  "first_down_yards_needed t = Num y \<Longrightarrow>
   fourth_down_decision t r = run_play t r \<or>
   fourth_down_decision t r = Inr (kick_field_goal t r) \<or>
   fourth_down_decision t r = Inr (punt t r)"
  by (simp add: fourth_down_decision_def meets_fouth_down_criteria_def)

lemma drive_play_total:
  "first_down_yards_needed t = Num y \<Longrightarrow> \<exists>p t' r'. drive_play t r = Inr (p, t', r')"
  using fourth_down_decision_Num[of t y r] run_play_total[of t r]
  by (cases "kick_field_goal t r"; cases "punt t r") (auto simp: drive_play_def)

lemma drive_play_step:
  assumes "drive_play t r = Inr (p, t', r')" "first_down_yards_needed t = Num y"
    "field_position t < 100"
  shows "p_down p = downs_completed t \<and> p_field_position p = field_position t \<and>
         (\<exists>y'. first_down_yards_needed t' = Num y' \<and>
           ((downs_completed t' = 0 \<and> field_position t' < 100 \<and> y' = 10 \<and>
             field_position t + y \<le> field_position t') \<or>
            (downs_completed t' = downs_completed t + 1 \<and>
             field_position t + y \<le> field_position t' + y')))"
proof -
  consider (run) "run_play t r = Inr (p, t', r')"
    | (kp) "kick_field_goal t r = (p, t', r') \<or> punt t r = (p, t', r')"
    using assms(1) fourth_down_decision_Num[OF assms(2), of r]
    by (auto simp: drive_play_def split: if_splits)
  then show ?thesis
  proof cases
    case run
    from run_play_step[OF this assms(2,3)] show ?thesis .
  next
    case kp
    from kick_punt_step[OF this] show ?thesis using assms(2) by simp
  qed
qed

lemma drive_play_drive_data:
  "drive_play t r = Inr (p, t', r') \<Longrightarrow> drive_data t' = drive_data t"
  by (auto simp: drive_play_def fourth_down_decision_def run_play_eq Let_def punt_def
      kick_field_goal_def update_score_def split: if_splits sum.splits)

section \<open>Properties of the drive loop\<close>

lemma drive_loop_stop:
  "\<not> (downs_completed t \<le> 3 \<and> field_position t < 100) \<Longrightarrow>
   drive_loop t r plays = Inr (t, r, plays)"
  by (subst drive_loop.simps) auto

lemma drive_loop_step:
  "downs_completed t \<le> 3 \<and> field_position t < 100 \<Longrightarrow>
   drive_play t r = Inr (p, t', r') \<Longrightarrow>
   drive_loop t r plays = drive_loop t' r' (plays @ [p])"
  by (subst drive_loop.simps) auto

lemma spaced_mono: "lo' \<le> lo \<Longrightarrow> spaced lo zs \<Longrightarrow> spaced lo' zs"
  by (cases zs) auto


text \<open>
  The loop returns from every state that holds a number of yards needed and 0 to 4 downs
  completed, and the plays it adds satisfy \<open>rows_ok\<close>.
\<close>

lemma drive_loop_rows:
  assumes "first_down_yards_needed t = Num y" "0 \<le> downs_completed t" "downs_completed t \<le> 4"
  shows "\<exists>t' r' new. drive_loop t r plays = Inr (t', r', plays @ new) \<and> rows_ok t y new"
  using assms
proof (induction t r plays arbitrary: y rule: drive_loop.induct)
  case (1 t r plays)
  show ?case
  proof (cases "downs_completed t \<le> 3 \<and> field_position t < 100")
    case False
    then have "drive_loop t r plays = Inr (t, r, plays @ [])"
      by (simp add: drive_loop_stop)
    moreover have "rows_ok t y []"
      using False "1.prems" by (auto simp: rows_ok_def set_starts_def)
    ultimately show ?thesis by blast
  next
    case True
    obtain p t1 r1 where step: "drive_play t r = Inr (p, t1, r1)"
      using drive_play_total[OF "1.prems"(1)] by blast
    from drive_play_step[OF step "1.prems"(1)] True
    obtain y1 where row: "p_down p = downs_completed t" "p_field_position p = field_position t"
      and y1: "first_down_yards_needed t1 = Num y1"
      and alt: "(downs_completed t1 = 0 \<and> field_position t1 < 100 \<and> y1 = 10 \<and>
                 field_position t + y \<le> field_position t1) \<or>
                (downs_completed t1 = downs_completed t + 1 \<and>
                 field_position t + y \<le> field_position t1 + y1)"
      by blast
    have d1: "0 \<le> downs_completed t1" "downs_completed t1 \<le> 4"
      using alt True "1.prems" by auto
    from "1.IH"[OF True step refl refl y1 d1]
    obtain t' r' new1 where
      res: "drive_loop t1 r1 (plays @ [p]) = Inr (t', r', (plays @ [p]) @ new1)"
      and ok1: "rows_ok t1 y1 new1" by blast
    have "drive_loop t r plays = Inr (t', r', plays @ (p # new1))"
      using drive_loop_step[OF True step] res by simp
    moreover have "rows_ok t y (p # new1)"
    proof -
      have ss: "set_starts (p # new1) =
          (if downs_completed t = 0 then field_position t # set_starts new1
           else set_starts new1)"
        using row by (simp add: set_starts_def)
      have downs: "list_all (\<lambda>q. 0 \<le> p_down q \<and> p_down q \<le> 3) (p # new1)"
        using ok1 row True "1.prems"(2) by (simp add: rows_ok_def)
      from alt show ?thesis
      proof
        assume renew: "downs_completed t1 = 0 \<and> field_position t1 < 100 \<and> y1 = 10 \<and>
                 field_position t + y \<le> field_position t1"
        with ok1 have z: "set_starts new1 \<noteq> []" "hd (set_starts new1) = field_position t1"
          "spaced (field_position t1 + 10) (tl (set_starts new1))"
          "length new1 \<le> 4 + 4 * length (tl (set_starts new1))"
          by (simp_all add: rows_ok_def Let_def)
        from z(1) obtain z0 zs0 where zs: "set_starts new1 = z0 # zs0"
          by (cases "set_starts new1") auto
        have sp: "spaced (field_position t + y) (set_starts new1)"
          using z renew zs by simp
        have len: "length (p # new1) + nat (downs_completed t) \<le>
                   4 + 4 * length (set_starts new1)"
        proof -
          have "nat (downs_completed t) \<le> 3" using True by linarith
          then show ?thesis using z(4) zs by simp
        qed
        show ?thesis
          using downs sp len True unfolding rows_ok_def Let_def ss by simp
      next
        assume used: "downs_completed t1 = downs_completed t + 1 \<and>
                 field_position t + y \<le> field_position t1 + y1"
        then have "downs_completed t1 \<noteq> 0" using "1.prems"(2) by simp
        with ok1 have z: "spaced (field_position t1 + y1) (set_starts new1)"
          "length new1 + nat (downs_completed t1) \<le> 4 + 4 * length (set_starts new1)"
          by (simp_all add: rows_ok_def Let_def)
        have sp: "spaced (field_position t + y) (set_starts new1)"
          using spaced_mono[OF _ z(1)] used by simp
        have len: "length (p # new1) + nat (downs_completed t) \<le>
                   4 + 4 * length (set_starts new1)"
          using z(2) used "1.prems"(2) by (simp add: nat_add_distrib)
        show ?thesis
          using downs sp len True unfolding rows_ok_def Let_def ss by simp
      qed
    qed
    ultimately show ?thesis by blast
  qed
qed

lemma drive_loop_drive_data:
  "drive_loop t r plays = Inr (t', r', plays') \<Longrightarrow> drive_data t' = drive_data t"
proof (induction t r plays rule: drive_loop.induct)
  case (1 t r plays)
  show ?case
  proof (cases "downs_completed t \<le> 3 \<and> field_position t < 100")
    case False
    with "1.prems" show ?thesis by (simp add: drive_loop_stop)
  next
    case True
    with "1.prems" obtain p t1 r1 where step: "drive_play t r = Inr (p, t1, r1)"
      by (subst (asm) drive_loop.simps) (auto split: sum.splits)
    from "1.prems" drive_loop_step[OF True step]
    have "drive_loop t1 r1 (plays @ [p]) = Inr (t', r', plays')" by simp
    from "1.IH"[OF True step refl refl this] drive_play_drive_data[OF step]
    show ?thesis by simp
  qed
qed

text \<open>Every call of \<open>simulate_drive\<close> returns, having appended one DataFrame.\<close>

lemma simulate_drive_rows:
  "\<exists>t' r' plays. simulate_drive t sp r = Inr (t', r') \<and>
     drive_data t' = drive_data t @ [plays] \<and>
     rows_ok (reset_series (set_field_position t sp)) 10 plays"
proof -
  have "first_down_yards_needed (reset_series (set_field_position t sp)) = Num 10"
    "0 \<le> downs_completed (reset_series (set_field_position t sp))"
    "downs_completed (reset_series (set_field_position t sp)) \<le> 4"
    by (simp_all add: reset_series_def)
  from drive_loop_rows[OF this, of r "[]"] obtain t' r' new where
    loop: "drive_loop (reset_series (set_field_position t sp)) r [] = Inr (t', r', new)"
    and ok: "rows_ok (reset_series (set_field_position t sp)) 10 new" by auto
  from drive_loop_drive_data[OF loop] have "drive_data t' = drive_data t"
    by (simp add: reset_series_def set_field_position_def)
  with loop ok show ?thesis
    by (simp add: simulate_drive_def Let_def update_drive_data_def
        set_has_completed_possession_def)
qed

section \<open>Particular drives and games\<close>





text \<open>
  With \<open>demo_rand\<close> the first team scores a touchdown in eight plays and the second, needing
  one, turns the ball over on downs at its 25: regulation ends 7-0.
\<close>

lemma demo_regulation:
  "\<exists>g r. regulation demo_game demo_rand = Inr (g, r, 75) \<and>
     score (ball_first_team g) = 7 \<and> score (ball_second_team g) = 0 \<and>
     has_completed_a_possession (ball_first_team g) \<and>
     has_completed_a_possession (ball_second_team g) \<and>
     total_yards (drive_data (ball_first_team g)) = Inr 80 \<and>
     total_yards (drive_data (ball_second_team g)) = Inr 0 \<and>
     length (drive_data (ball_first_team g)) = 1 \<and>
     length (drive_data (ball_second_team g)) = 1 \<and>
     name (ball_first_team g) = ''receiving_team'' \<and>
     name (ball_second_team g) = ''kicking_team'' \<and>
     had_ball_first (ball_first_team g) = Some True \<and>
     game_data g = Map.empty"
  by (simp add: regulation_def demo_game_def demo_rand_def FootballGame_init_def new_team_def
      FootballTeam_init_def default_args_def set_had_ball_first_def
      simulate_drive_def drive_loop.simps drive_play_def run_play_eq Let_def
      set_field_position_def reset_series_def get_play_conditions_dict_def
      touch_down_conversion_def update_drive_data_def set_has_completed_possession_def
      determine_opponent_position_def get_last_play_def set_need_touchdown_def set_need_score_def
      fourth_down_decision_def enable_sudden_death_def total_yards_def)

lemma demo_game_played:
  "\<exists>g r. simulate_game demo_game demo_rand = Some (Inr (g, r)) \<and>
     winner g = Some BallFirst \<and> loser g = Some BallSecond \<and>
     score (ball_first_team g) = 7 \<and> score (ball_second_team g) = 0 \<and>
     game_data g ''winner'' = Some (GStr ''receiving_team'') \<and>
     game_data g ''loser'' = Some (GStr ''kicking_team'') \<and>
     game_data g ''winner_score'' = Some (GInt 0) \<and>
     game_data g ''loser_score'' = None"
proof -
  obtain g r where reg: "regulation demo_game demo_rand = Inr (g, r, 75)"
    and facts: "score (ball_first_team g) = 7" "score (ball_second_team g) = 0"
     "has_completed_a_possession (ball_first_team g)"
     "has_completed_a_possession (ball_second_team g)"
     "total_yards (drive_data (ball_first_team g)) = Inr 80"
     "total_yards (drive_data (ball_second_team g)) = Inr 0"
     "length (drive_data (ball_first_team g)) = 1"
     "length (drive_data (ball_second_team g)) = 1"
     "name (ball_first_team g) = ''receiving_team''"
     "name (ball_second_team g) = ''kicking_team''"
     "had_ball_first (ball_first_team g) = Some True"
     "game_data g = Map.empty"
    using demo_regulation by blast
  have w: "check_for_winner g" using facts by (simp add: check_for_winner_def)
  then have sd: "sudden_death g r 75 = Some (Inr (g, r))" by (simp add: sudden_death.simps)
  have ne: "drive_data (ball_first_team g) \<noteq> []" "drive_data (ball_second_team g) \<noteq> []"
    using facts(7,8) by auto
  show ?thesis
    using reg sd facts ne
    by (simp add: simulate_game_def set_winning_team_def method_truth_def update_game_data_def
        get_drive_data_def)
qed


lemma get_last_play_snoc:
  "drive_data t = ds @ [ps @ [p]] \<Longrightarrow> get_last_play t = Inr p"
  by (simp add: get_last_play_def)

section \<open>Claims\<close>

subsection \<open>C1: the sudden-death loop\<close>




subsection \<open>C2: the game summary\<close>

text \<open>
  C2, evaluated on the code: after the 7-0 game of the two default teams, the summary entry
  \<open>winner_score\<close> holds the loser's score 0, not the winner's 7, and there is no entry
  \<open>loser_score\<close>: line 329 assigns the loser's score to the key line 328 has just set.
\<close>

theorem update_game_data_overwrites_winner_score:
  "\<exists>g r. simulate_game demo_game demo_rand = Some (Inr (g, r)) \<and>
     winner g = Some BallFirst \<and> loser g = Some BallSecond \<and>
     score (team_of g BallFirst) = 7 \<and> score (team_of g BallSecond) = 0 \<and>
     game_data g ''winner_score'' = Some (GInt 0) \<and>
     game_data g ''loser_score'' = None"
  using demo_game_played by auto

subsection \<open>C3: the guard of \<open>set_winning_team\<close>\<close>

text \<open>
  C3: \<open>set_winning_team\<close> never prints "No winner yet!", because its guard tests the method
  object; whatever the game state, the team with the higher score becomes the winner and the
  other the loser when the scores differ.
\<close>

theorem set_winning_team_guard_unreachable:
  "''No winner yet!'' \<notin> set (fst (set_winning_team g)) \<and>
   (score (ball_first_team g) > score (ball_second_team g) \<longrightarrow>
      winner (snd (set_winning_team g)) = Some BallFirst \<and>
      loser (snd (set_winning_team g)) = Some BallSecond) \<and>
   (score (ball_first_team g) < score (ball_second_team g) \<longrightarrow>
      winner (snd (set_winning_team g)) = Some BallSecond \<and>
      loser (snd (set_winning_team g)) = Some BallFirst)"
  by (simp add: set_winning_team_def method_truth_def)

text \<open>
  C3, an instance: in \<open>unplayed_game\<close> no team has completed a possession, so
  \<open>check_for_winner\<close> is false; the winner is assigned all the same.
\<close>

theorem set_winning_team_guard_unreachable_witness:
  "\<not> check_for_winner unplayed_game \<and>
   score (ball_second_team unplayed_game) < score (ball_first_team unplayed_game) \<and>
   ''No winner yet!'' \<notin> set (fst (set_winning_team unplayed_game)) \<and>
   winner (snd (set_winning_team unplayed_game)) = Some BallFirst \<and>
   loser (snd (set_winning_team unplayed_game)) = Some BallSecond"
proof -
  have a: "\<not> check_for_winner unplayed_game"
    by (simp add: check_for_winner_def unplayed_game_def FootballGame_init_def update_score_def
        new_team_def FootballTeam_init_def)
  have b: "score (ball_second_team unplayed_game) < score (ball_first_team unplayed_game)"
    by (simp add: unplayed_game_def FootballGame_init_def update_score_def
        new_team_def FootballTeam_init_def)
  show ?thesis
    using a b set_winning_team_guard_unreachable[of unplayed_game] by simp
qed

subsection \<open>C4: construction\<close>

text \<open>
  C4, as the code has it: constructing a team never raises. The constructor stores every
  parameter as given, so a minimum above the most-likely value, a most-likely value above the
  maximum, a two-point probability outside [0,1] and a negative punt deviation all pass.
\<close>

theorem FootballTeam_init_never_raises:
  "\<exists>t. FootballTeam_init a = Inr t \<and> min_yards t = a_min_yards a \<and>
       exp_yards t = a_exp_yards a \<and> max_yards t = a_max_yards a \<and>
       two_point_conversion_rate t = a_two_point_conversion_rate a \<and>
       punt_stdv t = a_punt_stdv a"
  by (simp add: FootballTeam_init_def)

text \<open>
  C4 as stated fails: \<open>bad_args\<close> breaks all four rules and the constructor returns a team.
\<close>

theorem invalid_config_accepted:
  "invalid_config bad_args \<and> \<not> isl (FootballTeam_init bad_args)"
  by (simp add: invalid_config_def bad_args_def default_args_def FootballTeam_init_def)

subsection \<open>C5: the fourth-down decision\<close>

text \<open>
  C5: on the final down of a set (three downs completed) the drive's play is the one the
  specification's ordered policy selects: convert when a touchdown is needed or the ball is
  past the position threshold with fewer yards to go than the yard threshold; else kick when
  the field-goal probability exceeds 0.55; else convert when any score is needed; else punt.
  A team that needs a touchdown runs a play whatever its thresholds.
\<close>

theorem fourth_down_decision_order:
  "(downs_completed t = 3 \<and> first_down_yards_needed t = Num y \<longrightarrow>
      drive_play t r = carry_out (fourth_down_policy t y) t r) \<and>
   (need_touchdown t \<longrightarrow> fourth_down_decision t r = run_play t r)"
  by (simp add: drive_play_def fourth_down_decision_def fourth_down_policy_def
      meets_fouth_down_criteria_def)

text \<open>
  C5, an instance: on fourth and ten at its own 25 the default team punts; the same team
  needing a touchdown runs a play.
\<close>

theorem fourth_down_decision_order_witness:
  "downs_completed fourth_down_team = 3 \<and> first_down_yards_needed fourth_down_team = Num 10 \<and>
   fourth_down_policy fourth_down_team 10 = PuntAway \<and>
   drive_play fourth_down_team (rand_const 0 45 0) =
     Inr (punt fourth_down_team (rand_const 0 45 0)) \<and>
   need_touchdown (fourth_down_team\<lparr>need_touchdown := True\<rparr>) \<and>
   fourth_down_decision (fourth_down_team\<lparr>need_touchdown := True\<rparr>) (rand_const 0 45 0) =
     run_play (fourth_down_team\<lparr>need_touchdown := True\<rparr>) (rand_const 0 45 0)"
proof -
  have a: "downs_completed fourth_down_team = 3 \<and>
           first_down_yards_needed fourth_down_team = Num 10"
    by (simp add: fourth_down_team_def)
  have b: "fourth_down_policy fourth_down_team 10 = PuntAway"
    by (simp add: fourth_down_policy_def fourth_down_team_def new_team_def FootballTeam_init_def
        default_args_def get_field_goal_probability_def)
  have c: "need_touchdown (fourth_down_team\<lparr>need_touchdown := True\<rparr>)" by simp
  show ?thesis
    using a b c fourth_down_decision_order[of fourth_down_team 10 "rand_const 0 45 0"]
      fourth_down_decision_order[of "fourth_down_team\<lparr>need_touchdown := True\<rparr>" 10
        "rand_const 0 45 0"]
    by simp
qed

subsection \<open>C6: downs completed and the final down of a set\<close>

text \<open>
  C6, as the code has it: every play of every drive starts with 0, 1, 2 or 3 downs
  completed. A play at three downs completed that is a run, stays short of the goal line
  and gains enough to bring the yards needed to 0 or below leaves no down completed and 10
  yards needed, the ball where the play put it, and the loop runs a further play; any other
  play at three downs completed (a touchdown among them) leaves four downs completed, and
  the loop stops there.
\<close>

theorem final_down_converts_or_ends:
  "(\<exists>t' r' plays. simulate_drive t sp r = Inr (t', r') \<and>
      drive_data t' = drive_data t @ [plays] \<and>
      list_all (\<lambda>p. p_down p \<in> {0, 1, 2, 3}) plays) \<and>
   (downs_completed s = 3 \<and> field_position s < 100 \<and> first_down_yards_needed s = Num y \<and>
    drive_play s r0 = Inr (p, s', r0') \<longrightarrow>
      (if converts p
       then downs_completed s' = 0 \<and> first_down_yards_needed s' = Num 10 \<and>
            field_position s' = position_after p \<and> drive_continues s' \<and>
            drive_loop s' r0' ps \<noteq> Inr (s', r0', ps)
       else downs_completed s' = 4 \<and> \<not> drive_continues s' \<and>
            drive_loop s' r0' ps = Inr (s', r0', ps)))"
proof
  obtain t' r' plays where res: "simulate_drive t sp r = Inr (t', r')"
    "drive_data t' = drive_data t @ [plays]"
    and ok: "rows_ok (reset_series (set_field_position t sp)) 10 plays"
    using simulate_drive_rows by blast
  from ok have "list_all (\<lambda>p. 0 \<le> p_down p \<and> p_down p \<le> 3) plays"
    by (simp add: rows_ok_def)
  then have "list_all (\<lambda>p. p_down p \<in> {0, 1, 2, 3}) plays"
    unfolding list_all_iff by auto
  with res show "\<exists>t' r' plays. simulate_drive t sp r = Inr (t', r') \<and>
      drive_data t' = drive_data t @ [plays] \<and>
      list_all (\<lambda>p. p_down p \<in> {0, 1, 2, 3}) plays" by blast
next
  let ?goal = "if converts p
       then downs_completed s' = 0 \<and> first_down_yards_needed s' = Num 10 \<and>
            field_position s' = position_after p \<and> drive_continues s' \<and>
            drive_loop s' r0' ps \<noteq> Inr (s', r0', ps)
       else downs_completed s' = 4 \<and> \<not> drive_continues s' \<and>
            drive_loop s' r0' ps = Inr (s', r0', ps)"
  show "downs_completed s = 3 \<and> field_position s < 100 \<and> first_down_yards_needed s = Num y \<and>
    drive_play s r0 = Inr (p, s', r0') \<longrightarrow> ?goal"
  proof
    assume a: "downs_completed s = 3 \<and> field_position s < 100 \<and>
      first_down_yards_needed s = Num y \<and> drive_play s r0 = Inr (p, s', r0')"
    then consider (run) "run_play s r0 = Inr (p, s', r0')"
      | (kick) "kick_field_goal s r0 = (p, s', r0')" | (punt) "punt s r0 = (p, s', r0')"
      using fourth_down_decision_Num[of s y r0] by (auto simp: drive_play_def)
    then have state: "if converts p
       then downs_completed s' = 0 \<and> first_down_yards_needed s' = Num 10 \<and>
            field_position s' = position_after p \<and> drive_continues s'
       else downs_completed s' = 4 \<and> \<not> drive_continues s'"
    proof cases
      case run
      with a show ?thesis
        by (auto simp: run_play_eq Let_def converts_def gains_enough_def position_after_def
            drive_continues_def get_play_conditions_dict_def split: if_splits)
    next
      case kick
      with a show ?thesis
        by (auto simp: kick_field_goal_def Let_def converts_def gains_enough_def
            drive_continues_def get_play_conditions_dict_def update_score_def split: if_splits)
    next
      case punt
      with a show ?thesis
        by (auto simp: punt_def Let_def converts_def gains_enough_def drive_continues_def
            get_play_conditions_dict_def)
    qed
    show ?goal
    proof (cases "converts p")
      case True
      with state have st: "downs_completed s' = 0" "first_down_yards_needed s' = Num 10"
        "field_position s' = position_after p" "drive_continues s'" by simp_all
      from drive_loop_rows[of s' 10 r0' ps] st obtain t' r' new where
        loop: "drive_loop s' r0' ps = Inr (t', r', ps @ new)" and ok: "rows_ok s' 10 new"
        by auto
      from ok st have "set_starts new \<noteq> []"
        by (simp add: rows_ok_def Let_def drive_continues_def)
      then have "new \<noteq> []" by (auto simp: set_starts_def)
      with loop have "drive_loop s' r0' ps \<noteq> Inr (s', r0', ps)" by simp
      with True st show ?thesis by simp
    next
      case False
      with state have st: "downs_completed s' = 4" "\<not> drive_continues s'" by simp_all
      then have "drive_loop s' r0' ps = Inr (s', r0', ps)"
        by (simp add: drive_loop_stop)
      with False st show ?thesis by simp
    qed
  qed
qed

text \<open>
  C6, an instance: on fourth and one at midfield a 10-yard run converts, and the team goes
  on from the 60 with no down completed; a run for no gain does not, and four downs are
  completed.
\<close>

theorem final_down_converts_or_ends_witness:
  "downs_completed short_yardage_team = 3 \<and> field_position short_yardage_team < 100 \<and>
   first_down_yards_needed short_yardage_team = Num 1 \<and>
   drive_play short_yardage_team (rand_const 10 45 0) =
     Inr (projr (drive_play short_yardage_team (rand_const 10 45 0))) \<and>
   converts (fst (projr (drive_play short_yardage_team (rand_const 10 45 0)))) \<and>
   downs_completed (fst (snd (projr (drive_play short_yardage_team (rand_const 10 45 0))))) = 0 \<and>
   field_position (fst (snd (projr (drive_play short_yardage_team (rand_const 10 45 0))))) = 60 \<and>
   drive_continues (fst (snd (projr (drive_play short_yardage_team (rand_const 10 45 0))))) \<and>
   \<not> converts (fst (projr (drive_play short_yardage_team (rand_const 0 45 0)))) \<and>
   downs_completed (fst (snd (projr (drive_play short_yardage_team (rand_const 0 45 0))))) = 4"
proof -
  let ?x = "projr (drive_play short_yardage_team (rand_const 10 45 0))"
  let ?z = "projr (drive_play short_yardage_team (rand_const 0 45 0))"
  have st: "downs_completed short_yardage_team = 3" "field_position short_yardage_team < 100"
    "first_down_yards_needed short_yardage_team = Num 1"
    by (simp_all add: short_yardage_team_def)
  have dp: "drive_play short_yardage_team (rand_const 10 45 0) =
              Inr (fst ?x, fst (snd ?x), snd (snd ?x))"
    "drive_play short_yardage_team (rand_const 0 45 0) =
              Inr (fst ?z, fst (snd ?z), snd (snd ?z))"
    using drive_play_total[OF st(3)] by (metis prod.collapse sum.sel(2))+
  have cv: "converts (fst ?x)" "position_after (fst ?x) = 60" "\<not> converts (fst ?z)"
    by (simp_all add: drive_play_def fourth_down_decision_def short_yardage_team_def run_play_eq
        Let_def rand_const_def new_team_def FootballTeam_init_def default_args_def converts_def
        gains_enough_def position_after_def get_play_conditions_dict_def
        meets_fouth_down_criteria_def)
  show ?thesis
    using final_down_converts_or_ends[of short_yardage_team 25 "rand_const 10 45 0"
        short_yardage_team 1 "rand_const 10 45 0" "fst ?x" "fst (snd ?x)" "snd (snd ?x)" "[]"]
      final_down_converts_or_ends[of short_yardage_team 25 "rand_const 10 45 0"
        short_yardage_team 1 "rand_const 0 45 0" "fst ?z" "fst (snd ?z)" "snd (snd ?z)" "[]"]
      st dp cv
    by simp
qed

text \<open>
  C6 as stated fails: on fourth and five at the opponent's 5 a 10-yard run gains enough to
  bring the yards needed below 0, yet it is a touchdown: four downs are completed, the
  yards needed stay 5 and the drive ends.
\<close>

theorem touchdown_on_final_down_ends_drive:
  "case drive_play goal_line_team (rand_const 10 45 0) of
     Inl e \<Rightarrow> False
   | Inr (p, s', r') \<Rightarrow>
       p_down p = 3 \<and> gains_enough p \<and> downs_completed s' = 4 \<and>
       first_down_yards_needed s' = Num 5 \<and> \<not> drive_continues s' \<and>
       drive_loop s' r' [p] = Inr (s', r', [p])"
  by (simp add: drive_play_def fourth_down_decision_def goal_line_team_def run_play_eq Let_def
      rand_const_def new_team_def FootballTeam_init_def default_args_def gains_enough_def
      get_play_conditions_dict_def drive_continues_def touch_down_conversion_def
      drive_loop.simps)

subsection \<open>C7: where the next possession starts\<close>

text \<open>
  C7: the last play of the drive that just ended fixes the next start. A play that scored
  gives 25; a punt gives the opponent position it recorded, 25 when the landing spot (field
  position plus punt distance) exceeds 100 and 100 minus the landing spot otherwise; any
  other play gives 100 minus (its field position plus its yards gained), and a missed field
  goal is recorded with -5 yards gained.
\<close>

theorem determine_opponent_position_rules:
  assumes "drive_data t = ds @ [ps @ [p]]"
  shows "(p_play_type p = Some ty \<and> p_points_from_play p = Some n \<and> n > 0 \<longrightarrow>
            determine_opponent_position t = Inr 25) \<and>
         (p = fst (punt kicker gen) \<longrightarrow>
            determine_opponent_position t =
              Inr (let landing = field_position kicker +
                     np_normal gen (punt_distance kicker) (punt_stdv kicker) (n_normal gen)
                   in if landing > 100 then 25 else 100 - landing)) \<and>
         (p_play_type p = Some ty \<and> ty \<noteq> ''punt'' \<and> p_points_from_play p = Some n \<and>
          \<not> n > 0 \<and> p_yards_gained p = Some yg \<longrightarrow>
            determine_opponent_position t = Inr (100 - (p_field_position p + yg))) \<and>
         (p = fst (kick_field_goal kicker gen) \<and>
          np_uniform gen (n_uniform gen) > get_field_goal_probability kicker \<longrightarrow>
            p_yards_gained p = Some (-5) \<and>
            determine_opponent_position t = Inr (100 - (field_position kicker + (-5))))"
  using get_last_play_snoc[OF assms]
  by (auto simp: determine_opponent_position_def punt_def kick_field_goal_def Let_def
      get_play_conditions_dict_def)

text \<open>
  C7, instances: a field goal missed from field position 70 gives 35 and one made gives 25;
  a 45-yard punt from the 25 gives 30 and an 80-yard punt, a touchback, gives 25; a 3-yard
  run on fourth down from the 25 gives 72.
\<close>

theorem determine_opponent_position_rules_witness:
  "field_position field_goal_team = 70 \<and>
   get_field_goal_probability field_goal_team < np_uniform (rand_const 0 45 (19 / 20)) 0 \<and>
   determine_opponent_position
     (after_play (kick_field_goal field_goal_team (rand_const 0 45 (19 / 20)))) = Inr 35 \<and>
   determine_opponent_position
     (after_play (kick_field_goal field_goal_team (rand_const 0 45 0))) = Inr 25 \<and>
   determine_opponent_position (after_play (punt fourth_down_team (rand_const 0 45 0))) = Inr 30 \<and>
   determine_opponent_position (after_play (punt fourth_down_team (rand_const 0 80 0))) = Inr 25 \<and>
   determine_opponent_position
     (after_play (projr (run_play fourth_down_team (rand_const 3 45 0)))) = Inr 72"
proof -
  let ?miss = "kick_field_goal field_goal_team (rand_const 0 45 (19 / 20))"
  let ?made = "kick_field_goal field_goal_team (rand_const 0 45 0)"
  let ?punt = "punt fourth_down_team (rand_const 0 45 0)"
  let ?deep = "punt fourth_down_team (rand_const 0 80 0)"
  let ?run = "projr (run_play fourth_down_team (rand_const 3 45 0))"
  have dd: "drive_data (after_play x) = [] @ [[] @ [fst x]]"
    if "drive_data (fst (snd x)) = []" for x
    using that by (simp add: after_play_def update_drive_data_def)
  have fg: "field_position field_goal_team = 70"
    "get_field_goal_probability field_goal_team = 7 / 10"
    by (simp_all add: field_goal_team_def get_field_goal_probability_def)
  have u: "np_uniform (rand_const 0 45 (19 / 20)) (n_uniform (rand_const 0 45 (19 / 20))) =
             19 / 20"
    "np_uniform (rand_const 0 45 (19 / 20)) 0 = 19 / 20"
    by (simp_all add: rand_const_def)
  have e1: "drive_data (fst (snd ?miss)) = []" "drive_data (fst (snd ?made)) = []"
    by (simp_all add: kick_field_goal_def Let_def field_goal_team_def new_team_def
        FootballTeam_init_def update_score_def)
  have e2: "drive_data (fst (snd ?punt)) = []" "drive_data (fst (snd ?deep)) = []"
    by (simp_all add: punt_def Let_def fourth_down_team_def new_team_def FootballTeam_init_def)
  have e3: "drive_data (fst (snd ?run)) = []"
    by (simp add: run_play_eq Let_def fourth_down_team_def new_team_def FootballTeam_init_def
        rand_const_def)
  have made: "p_play_type (fst ?made) = Some ''field_goal''"
    "p_points_from_play (fst ?made) = Some 3"
    by (simp_all add: kick_field_goal_def Let_def get_play_conditions_dict_def rand_const_def fg
        update_score_def)
  have run: "p_play_type (fst ?run) = Some ''run_play''" "p_points_from_play (fst ?run) = Some 0"
    "p_yards_gained (fst ?run) = Some 3" "p_field_position (fst ?run) = 25"
    by (simp_all add: run_play_eq Let_def fourth_down_team_def new_team_def FootballTeam_init_def
        rand_const_def get_play_conditions_dict_def)
  have pt: "field_position fourth_down_team = 25"
    "np_normal (rand_const 0 45 0) a b k = 45" "np_normal (rand_const 0 80 0) a b k = 80"
    for a b k
    by (simp_all add: fourth_down_team_def new_team_def FootballTeam_init_def rand_const_def)
  show ?thesis
    using determine_opponent_position_rules[OF dd[OF e1(1)],
        where kicker = field_goal_team and gen = "rand_const 0 45 (19 / 20)"]
      determine_opponent_position_rules[OF dd[OF e1(2)], where ty = "''field_goal''" and n = 3]
      determine_opponent_position_rules[OF dd[OF e2(1)],
        where kicker = fourth_down_team and gen = "rand_const 0 45 0"]
      determine_opponent_position_rules[OF dd[OF e2(2)],
        where kicker = fourth_down_team and gen = "rand_const 0 80 0"]
      determine_opponent_position_rules[OF dd[OF e3],
        where ty = "''run_play''" and n = 0 and yg = 3]
    by (simp add: fg u made run pt)
qed

subsection \<open>C8: the ten-yard drive\<close>



subsection \<open>C9: the yards needed of a fresh team\<close>


subsection \<open>C10: a drive ends\<close>



end
